theory Spec2Isabelle
  imports Complex_Main
begin

section \<open>JavaScript numbers\<close>

text \<open>
  The scene computes with JavaScript numbers.  They are modelled as exact reals extended
  with the two infinities and NaN: rounding, overflow, underflow and the sign of zero are
  left out, the special values that the code can produce (\<open>0 / 0\<close>, arithmetic on
  \<open>undefined\<close>) are kept.  The model therefore agrees with the code where the code's
  arithmetic is exact, as it is on the small vectors evaluated below; general
  statements about distances are made only where rounding cannot change them.
\<close>

datatype jsnum = Num real | PosInf | NegInf | NaN

fun jadd :: "jsnum \<Rightarrow> jsnum \<Rightarrow> jsnum" where
  "jadd (Num x) (Num y) = Num (x + y)"
| "jadd NaN _ = NaN"
| "jadd _ NaN = NaN"
| "jadd PosInf NegInf = NaN"
| "jadd NegInf PosInf = NaN"
| "jadd PosInf _ = PosInf"
| "jadd _ PosInf = PosInf"
| "jadd NegInf _ = NegInf"
| "jadd _ NegInf = NegInf"

fun jneg :: "jsnum \<Rightarrow> jsnum" where
  "jneg (Num x) = Num (- x)"
| "jneg PosInf = NegInf"
| "jneg NegInf = PosInf"
| "jneg NaN = NaN"

definition jsub :: "jsnum \<Rightarrow> jsnum \<Rightarrow> jsnum" where
  "jsub a b = jadd a (jneg b)"

fun signedInf :: "bool \<Rightarrow> jsnum" where
  "signedInf True = PosInf"
| "signedInf False = NegInf"

fun jmul :: "jsnum \<Rightarrow> jsnum \<Rightarrow> jsnum" where
  "jmul (Num x) (Num y) = Num (x * y)"
| "jmul NaN _ = NaN"
| "jmul _ NaN = NaN"
| "jmul PosInf (Num y) = (if y = 0 then NaN else signedInf (0 < y))"
| "jmul NegInf (Num y) = (if y = 0 then NaN else signedInf (y < 0))"
| "jmul (Num x) PosInf = (if x = 0 then NaN else signedInf (0 < x))"
| "jmul (Num x) NegInf = (if x = 0 then NaN else signedInf (x < 0))"
| "jmul PosInf PosInf = PosInf"
| "jmul PosInf NegInf = NegInf"
| "jmul NegInf PosInf = NegInf"
| "jmul NegInf NegInf = PosInf"

fun jdiv :: "jsnum \<Rightarrow> jsnum \<Rightarrow> jsnum" where
  "jdiv (Num x) (Num y) =
     (if y = 0 then (if x = 0 then NaN else signedInf (0 < x)) else Num (x / y))"
| "jdiv NaN _ = NaN"
| "jdiv _ NaN = NaN"
| "jdiv (Num x) PosInf = Num 0"
| "jdiv (Num x) NegInf = Num 0"
| "jdiv PosInf (Num y) = signedInf (0 \<le> y)"
| "jdiv NegInf (Num y) = signedInf (y < 0)"
| "jdiv PosInf PosInf = NaN"
| "jdiv PosInf NegInf = NaN"
| "jdiv NegInf PosInf = NaN"
| "jdiv NegInf NegInf = NaN"

fun jsqrt :: "jsnum \<Rightarrow> jsnum" where
  "jsqrt (Num x) = (if x < 0 then NaN else Num (sqrt x))"
| "jsqrt PosInf = PosInf"
| "jsqrt NegInf = NaN"
| "jsqrt NaN = NaN"

fun jsin :: "jsnum \<Rightarrow> jsnum" where
  "jsin (Num x) = Num (sin x)"
| "jsin _ = NaN"

fun jcos :: "jsnum \<Rightarrow> jsnum" where
  "jcos (Num x) = Num (cos x)"
| "jcos _ = NaN"

text \<open>The comparison \<open>a < b\<close> of two numbers; it is false as soon as one of them is NaN.\<close>

fun jlt :: "jsnum \<Rightarrow> jsnum \<Rightarrow> bool" where
  "jlt (Num x) (Num y) = (x < y)"
| "jlt NegInf (Num y) = True"
| "jlt NegInf PosInf = True"
| "jlt (Num x) PosInf = True"
| "jlt _ _ = False"

type_synonym vec = "jsnum list"

text \<open>
  Reading \<open>b[i]\<close>: past the end of the array the read gives \<open>undefined\<close>, which every
  arithmetic operator converts to NaN.
\<close>

definition jsget :: "vec \<Rightarrow> nat \<Rightarrow> jsnum" where
  "jsget b i = (if i < length b then b ! i else NaN)"

section \<open>Array operations\<close>

text \<open>\<open>xs.reduce((acc, val, i) => f(acc, val, i), init)\<close>, from index \<open>i\<close> on.\<close>

fun reduceFrom :: "('b \<Rightarrow> 'a \<Rightarrow> nat \<Rightarrow> 'b) \<Rightarrow> 'b \<Rightarrow> nat \<Rightarrow> 'a list \<Rightarrow> 'b" where
  "reduceFrom f acc i [] = acc"
| "reduceFrom f acc i (v # vs) = reduceFrom f (f acc v i) (Suc i) vs"

definition reduce :: "('b \<Rightarrow> 'a \<Rightarrow> nat \<Rightarrow> 'b) \<Rightarrow> 'b \<Rightarrow> 'a list \<Rightarrow> 'b" where
  "reduce f init xs = reduceFrom f init 0 xs"

text \<open>\<open>xs.map((x, i) => f(x, i))\<close>, from index \<open>i\<close> on.\<close>

fun mapFrom :: "('a \<Rightarrow> nat \<Rightarrow> 'b) \<Rightarrow> nat \<Rightarrow> 'a list \<Rightarrow> 'b list" where
  "mapFrom f i [] = []"
| "mapFrom f i (x # xs) = f x i # mapFrom f (Suc i) xs"

definition mapIndexed :: "('a \<Rightarrow> nat \<Rightarrow> 'b) \<Rightarrow> 'a list \<Rightarrow> 'b list" where
  "mapIndexed f xs = mapFrom f 0 xs"

text \<open>
  \<open>xs.sort(comparefn)\<close>.  The language standard requires the sort to be stable and reads
  a NaN returned by the comparator as \<open>+0\<close>.  For a comparator that orders the
  elements consistently the result is thereby determined; it is computed here by a
  stable insertion sort, which moves an element behind a later one only when the
  comparator puts the later one strictly first.  When the comparator is not consistent,
  as with a NaN distance among three or more entries, the standard leaves the order to
  the engine; the sort is used below only with consistent comparators and on arrays of
  two entries, which no stable sort reorders unless the comparator says so.
\<close>

definition sortCompare :: "('a \<Rightarrow> 'a \<Rightarrow> jsnum) \<Rightarrow> 'a \<Rightarrow> 'a \<Rightarrow> jsnum" where
  "sortCompare comparefn x y = (case comparefn x y of NaN \<Rightarrow> Num 0 | v \<Rightarrow> v)"

fun sortInsert :: "('a \<Rightarrow> 'a \<Rightarrow> jsnum) \<Rightarrow> 'a \<Rightarrow> 'a list \<Rightarrow> 'a list" where
  "sortInsert comparefn x [] = [x]"
| "sortInsert comparefn x (y # ys) =
     (if jlt (sortCompare comparefn y x) (Num 0) then y # sortInsert comparefn x ys
      else x # y # ys)"

fun js_sort :: "('a \<Rightarrow> 'a \<Rightarrow> jsnum) \<Rightarrow> 'a list \<Rightarrow> 'a list" where
  "js_sort comparefn [] = []"
| "js_sort comparefn (x # xs) = sortInsert comparefn x (js_sort comparefn xs)"

text \<open>\<open>xs.slice(from, to)\<close> for non-negative bounds.\<close>

definition slice :: "nat \<Rightarrow> nat \<Rightarrow> 'a list \<Rightarrow> 'a list" where
  "slice from to xs = take (to - from) (drop from xs)"

section \<open>Similarity\<close>

text \<open>
  \<^verbatim>\<open>cosineDistance\<close>: the dot product reads \<open>b[i]\<close> for every index of \<open>a\<close>;
  the result is \<open>1 - dot / (normA * normB)\<close>.
\<close>

definition cosineDistance :: "vec \<Rightarrow> vec \<Rightarrow> jsnum" where
  "cosineDistance a b =
     (let dot = reduce (\<lambda>acc val i. jadd acc (jmul val (jsget b i))) (Num 0) a;
          normA = jsqrt (reduce (\<lambda>acc val i. jadd acc (jmul val val)) (Num 0) a);
          normB = jsqrt (reduce (\<lambda>acc val i. jadd acc (jmul val val)) (Num 0) b)
      in jsub (Num 1) (jdiv dot (jmul normA normB)))"

record item =
  index :: nat
  distance :: jsnum

definition compareFn :: "item \<Rightarrow> item \<Rightarrow> jsnum" where
  "compareFn a b = jsub (distance a) (distance b)"

text \<open>
  \<^verbatim>\<open>findNearestNeighbors\<close>: the distances of all stored vectors to the given one
  are sorted ascending, and the entries at the positions \<open>1\<close> to \<open>k\<close> of the sorted
  array are returned (the entry at position \<open>0\<close> is dropped).
\<close>

definition findNearestNeighbors :: "vec list \<Rightarrow> vec \<Rightarrow> nat \<Rightarrow> nat list" where
  "findNearestNeighbors currentEmbeddings embedding k =
     (let distances = map (\<lambda>e. cosineDistance e embedding) currentEmbeddings;
          sortedIndexes =
            slice 1 (k + 1)
              (js_sort compareFn
                 (mapIndexed (\<lambda>d i. \<lparr>index = i, distance = d\<rparr>) distances))
      in map index sortedIndexes)"

section \<open>The scene state\<close>

text \<open>
  The loaded encoder is opaque: \<open>model.embed([w])\<close> followed by \<open>array()\<close> either
  yields the vector of \<open>w\<close> or rejects (\<open>None\<close>).
\<close>

type_synonym use_model = "string \<Rightarrow> vec option"

record scene =
  currentVocab :: "string list"
  currentEmbeddings :: "vec list"
  inputValue :: string
  isInputVisible :: bool
  validationError :: string
  highlightedWord :: "string option"
  isProcessing :: bool
  model :: "use_model option"
  isModelLoading :: bool
  nearestIndexes :: "nat list"

datatype error = TypeError

section \<open>Strings\<close>

text \<open>
  Strings are sequences of code units below 256.  \<open>trim\<close> removes the white space and
  line terminators among them, \<open>toLowerCase\<close> lowers the capital letters among them.
\<close>

definition isWhiteSpace :: "char \<Rightarrow> bool" where
  "isWhiteSpace c = ((of_char c :: nat) \<in> {9, 10, 11, 12, 13, 32, 160})"

definition trim :: "string \<Rightarrow> string" where
  "trim s = rev (dropWhile isWhiteSpace (rev (dropWhile isWhiteSpace s)))"

definition isLetter :: "char \<Rightarrow> bool" where
  "isLetter c = (let n = of_char c :: nat in (65 \<le> n \<and> n \<le> 90) \<or> (97 \<le> n \<and> n \<le> 122))"

definition toLowerChar :: "char \<Rightarrow> char" where
  "toLowerChar c =
     (let n = of_char c :: nat
      in if (65 \<le> n \<and> n \<le> 90) \<or> (192 \<le> n \<and> n \<le> 222 \<and> n \<noteq> 215)
         then char_of (n + 32) else c)"

definition toLowerCase :: "string \<Rightarrow> string" where
  "toLowerCase s = map toLowerChar s"

text \<open>\<open>xs.indexOf(w)\<close>; \<open>None\<close> stands for \<open>-1\<close>.\<close>

fun indexOf :: "'a list \<Rightarrow> 'a \<Rightarrow> nat option" where
  "indexOf [] w = None"
| "indexOf (x # xs) w = (if x = w then Some 0 else map_option Suc (indexOf xs w))"

section \<open>Adding words\<close>

text \<open>
  \<^verbatim>\<open>validateWord\<close> returns whether the word is accepted and sets the message shown
  to the user.  The pattern \<open>/^[a-zA-Z]+$/\<close> accepts one or more letters and nothing else.
\<close>

definition validateWord :: "scene \<Rightarrow> string \<Rightarrow> bool \<times> scene" where
  "validateWord s word =
     (if trim word = [] then (False, s\<lparr>validationError := ''Please enter a word.''\<rparr>)
      else let valid = (word \<noteq> [] \<and> list_all isLetter word)
           in (valid,
               s\<lparr>validationError :=
                    (if valid then [] else ''Invalid word. Please use only letters.'')\<rparr>))"

text \<open>\<^verbatim>\<open>addWord\<close>: the path through the loaded encoder.\<close>

definition addWord :: "scene \<Rightarrow> string \<Rightarrow> scene" where
  "addWord s newWord =
     (case validateWord s newWord of
        (False, s1) \<Rightarrow> s1
      | (True, s1) \<Rightarrow>
          (case model s1 of
             None \<Rightarrow>
               s1\<lparr>validationError := ''Model is still loading. Please try again in a moment.''\<rparr>
           | Some m \<Rightarrow>
               (case m (toLowerCase newWord) of
                  Some newEmbedding \<Rightarrow>
                    s1\<lparr>currentVocab := currentVocab s1 @ [newWord],
                       currentEmbeddings := currentEmbeddings s1 @ [newEmbedding],
                       inputValue := [],
                       isInputVisible := False,
                       highlightedWord := Some newWord,
                       isProcessing := False\<rparr>
                | None \<Rightarrow>
                    s1\<lparr>validationError := ''Failed to generate embedding for this word.'',
                       isProcessing := False\<rparr>)))"

text \<open>
  The fallback embedding of \<^verbatim>\<open>fallbackAddWord\<close>.  For an empty word the index
  \<open>i % 0\<close> is NaN, the read gives \<open>undefined\<close>, and the component is NaN.
\<close>

definition simpleEmbedding :: "string \<Rightarrow> vec" where
  "simpleEmbedding newWord =
     (let chars = toLowerCase newWord;
          charValues = map (\<lambda>c. int (of_char c) - 96) chars
      in map (\<lambda>i.
            let charValue =
                  (if charValues = [] then NaN
                   else Num (of_int (charValues ! (i mod length charValues))));
                position = Num (real i / 100)
            in jmul (jsin (jmul charValue position)) (jcos charValue))
          [0..<100])"

definition fallbackAddWord :: "scene \<Rightarrow> string \<Rightarrow> scene" where
  "fallbackAddWord s newWord =
     (case validateWord s newWord of
        (False, s1) \<Rightarrow> s1
      | (True, s1) \<Rightarrow>
          s1\<lparr>currentVocab := currentVocab s1 @ [newWord],
             currentEmbeddings := currentEmbeddings s1 @ [simpleEmbedding newWord],
             inputValue := [],
             isInputVisible := False,
             highlightedWord := Some newWord,
             isProcessing := False\<rparr>)"

definition handleAddWord :: "scene \<Rightarrow> scene" where
  "handleAddWord s =
     (if model s \<noteq> None then addWord s (inputValue s) else fallbackAddWord s (inputValue s))"

section \<open>Selecting a word\<close>

text \<open>
  \<^verbatim>\<open>onSelect\<close>.  When the word is in the vocabulary at an index that has no
  vector, the query is \<open>undefined\<close>: with an empty store no distance is computed, with
  a non-empty one \<open>cosineDistance\<close> throws.
\<close>

definition onSelect :: "scene \<Rightarrow> string \<Rightarrow> error + scene" where
  "onSelect s word =
     (if highlightedWord s = Some word
      then Inr (s\<lparr>highlightedWord := None, nearestIndexes := []\<rparr>)
      else
        (let s1 = s\<lparr>highlightedWord := Some word\<rparr>
         in case indexOf (currentVocab s) word of
              None \<Rightarrow> Inr s1
            | Some idx \<Rightarrow>
                if idx < length (currentEmbeddings s)
                then Inr (s1\<lparr>nearestIndexes :=
                            findNearestNeighbors (currentEmbeddings s)
                              (currentEmbeddings s ! idx) 5\<rparr>)
                else if currentEmbeddings s = [] then Inr (s1\<lparr>nearestIndexes := []\<rparr>)
                else Inl TypeError))"

section \<open>Loading the encoder\<close>

text \<open>
  \<^verbatim>\<open>loadUSEModel\<close> up to its \<open>await\<close>: the new state, and whether \<open>use.load()\<close>
  was called.
\<close>

definition loadUSEModel :: "scene \<Rightarrow> scene \<times> bool" where
  "loadUSEModel s =
     (if model s = None \<and> \<not> isModelLoading s then (s\<lparr>isModelLoading := True\<rparr>, True)
      else (s, False))"

text \<open>
  The rest of \<^verbatim>\<open>loadUSEModel\<close>, run when the load settles: on success the model is
  stored, on failure the error is logged; in both cases \<open>finally\<close> clears the flag.
\<close>

fun loadSettled :: "use_model option \<Rightarrow> scene \<Rightarrow> scene" where
  "loadSettled (Some loadedModel) s = s\<lparr>model := Some loadedModel, isModelLoading := False\<rparr>"
| "loadSettled None s = s\<lparr>isModelLoading := False\<rparr>"

text \<open>
  The effect has the dependencies \<open>[model, isModelLoading]\<close>: it runs after the first
  render and after every render in which one of the two has changed.  The second
  component of the pair counts the calls of \<open>use.load()\<close>.
\<close>

definition depsChanged :: "scene \<Rightarrow> scene \<Rightarrow> bool" where
  "depsChanged prev cur =
     (model cur \<noteq> model prev \<or> isModelLoading cur \<noteq> isModelLoading prev)"

definition effectRun :: "scene \<times> nat \<Rightarrow> scene \<times> nat" where
  "effectRun st =
     (case loadUSEModel (fst st) of (s1, called) \<Rightarrow> (s1, if called then Suc (snd st) else snd st))"

definition effectTwice :: "scene \<times> nat \<Rightarrow> scene \<times> nat" where
  "effectTwice st =
     (let st1 = effectRun st
      in if depsChanged (fst st) (fst st1) then effectRun st1 else st1)"

definition afterRender :: "scene \<Rightarrow> scene \<times> nat \<Rightarrow> scene \<times> nat" where
  "afterRender prev st = (if depsChanged prev (fst st) then effectTwice st else st)"

datatype event = Mount | LoadResolved use_model | LoadRejected

fun step :: "scene \<times> nat \<Rightarrow> event \<Rightarrow> scene \<times> nat" where
  "step st Mount = effectTwice st"
| "step st (LoadResolved m) = afterRender (fst st) (loadSettled (Some m) (fst st), snd st)"
| "step st LoadRejected = afterRender (fst st) (loadSettled None (fst st), snd st)"

definition run :: "scene \<times> nat \<Rightarrow> event list \<Rightarrow> scene \<times> nat" where
  "run st evs = foldl step st evs"

text \<open>Sequences of additions, through either path.\<close>

datatype addition = ViaModel string | ViaFallback string

fun appendWord :: "scene \<Rightarrow> addition \<Rightarrow> scene" where
  "appendWord s (ViaModel w) = addWord s w"
| "appendWord s (ViaFallback w) = fallbackAddWord s w"

text \<open>The state after the first render: the \<open>useState\<close> initial values.\<close>

definition initialScene :: "string list \<Rightarrow> vec list \<Rightarrow> scene" where
  "initialScene vocab embeddings =
     \<lparr>currentVocab = vocab, currentEmbeddings = embeddings, inputValue = [],
      isInputVisible = False, validationError = [], highlightedWord = None,
      isProcessing = False, model = None, isModelLoading = False, nearestIndexes = []\<rparr>"

section \<open>Notions used in the statements\<close>


text \<open>
  The fallback embedding in the words of the specification: the value of a character is
  \<open>ord(char) - ord('a') + 1\<close>, and component \<open>i\<close> uses the character at
  \<open>i mod wordLength\<close>.
\<close>

definition isLowerLetter :: "char \<Rightarrow> bool" where
  "isLowerLetter c =
     ((of_char CHR ''a'' :: nat) \<le> of_char c \<and> (of_char c :: nat) \<le> of_char CHR ''z'')"

definition spec_charValue :: "string \<Rightarrow> nat \<Rightarrow> real" where
  "spec_charValue word i =
     of_int (int (of_char (word ! (i mod length word))) - int (of_char CHR ''a'') + 1)"

definition spec_component :: "string \<Rightarrow> nat \<Rightarrow> real" where
  "spec_component word i =
     sin (spec_charValue word i * (real i / 100)) * cos (spec_charValue word i)"

section \<open>Example states\<close>

text \<open>
  Two words that differ in case only: the encoder is given the lower-cased word, so both
  have the same vector.
\<close>

definition caseScene :: scene where
  "caseScene =
     (initialScene [''cat'', ''Cat''] [[Num 1, Num 0], [Num 1, Num 0]])"


text \<open>
  A scene with a loaded encoder, two stored words and the first of them selected
  together with its one neighbour.
\<close>

definition selectedScene :: scene where
  "selectedScene =
     (initialScene [''cat'', ''dog''] [[Num 1, Num 0], [Num 0, Num 1]])
       \<lparr>model := Some (\<lambda>w. Some [Num (3/5), Num (4/5)]),
        highlightedWord := Some ''cat'',
        nearestIndexes := [1]\<rparr>"

text \<open>A scene without encoder whose store has two-component vectors.\<close>

definition planeScene :: scene where
  "planeScene = initialScene [''cat''] [[Num 1, Num 0]]"


section \<open>Evaluation and basic facts\<close>

lemmas evalNearest = findNearestNeighbors_def cosineDistance_def reduce_def jsub_def
  mapIndexed_def slice_def compareFn_def sortCompare_def jsget_def

lemmas evalValidate = validateWord_def trim_def isWhiteSpace_def isLetter_def

subsection \<open>The comparator on a NaN distance\<close>


subsection \<open>Indexed map and sort\<close>

lemma length_mapFrom: "length (mapFrom f i xs) = length xs"
  by (induction xs arbitrary: i) simp_all

lemma length_sortInsert: "length (sortInsert c x ys) = Suc (length ys)"
  by (induction ys) simp_all

lemma length_js_sort: "length (js_sort c xs) = length xs"
  by (induction xs) (simp_all add: length_sortInsert)



text \<open>The result never has more than \<open>k\<close> entries.\<close>

lemma length_findNearestNeighbors:
  "length (findNearestNeighbors embs q k) = min k (length embs - 1)"
  by (simp add: findNearestNeighbors_def slice_def mapIndexed_def length_js_sort length_mapFrom)

subsection \<open>Vectors of norm zero\<close>











subsection \<open>Validation and the two ways of adding a word\<close>

lemma length_simpleEmbedding: "length (simpleEmbedding w) = 100"
  by (simp add: simpleEmbedding_def Let_def)

lemma validateWord_fields:
  "currentVocab (snd (validateWord s w)) = currentVocab s"
  "currentEmbeddings (snd (validateWord s w)) = currentEmbeddings s"
  "nearestIndexes (snd (validateWord s w)) = nearestIndexes s"
  "model (snd (validateWord s w)) = model s"
  by (simp_all add: validateWord_def Let_def)

lemma validateWord_accepts:
  "fst (validateWord s w) \<Longrightarrow> validationError (snd (validateWord s w)) = []"
  by (simp add: validateWord_def Let_def split: if_splits)

lemma fallbackAddWord_valid:
  assumes "fst (validateWord s w)"
  shows "currentVocab (fallbackAddWord s w) = currentVocab s @ [w]"
    and "currentEmbeddings (fallbackAddWord s w) = currentEmbeddings s @ [simpleEmbedding w]"
    and "validationError (fallbackAddWord s w) = []"
    and "highlightedWord (fallbackAddWord s w) = Some w"
  using assms validateWord_accepts [OF assms] validateWord_fields [of s w]
  by (cases "validateWord s w"; simp add: fallbackAddWord_def)+

lemma addWord_valid:
  assumes "fst (validateWord s w)" and "model s = Some m" and "m (toLowerCase w) = Some v"
  shows "currentVocab (addWord s w) = currentVocab s @ [w]"
    and "currentEmbeddings (addWord s w) = currentEmbeddings s @ [v]"
    and "validationError (addWord s w) = []"
    and "highlightedWord (addWord s w) = Some w"
  using assms validateWord_accepts [OF assms(1)] validateWord_fields [of s w]
  by (cases "validateWord s w"; simp add: addWord_def)+

text \<open>Neither way of adding a word writes \<open>nearestIndexes\<close>.\<close>

lemma additions_keep_nearestIndexes:
  "nearestIndexes (addWord s w) = nearestIndexes s"
  "nearestIndexes (fallbackAddWord s w) = nearestIndexes s"
  using validateWord_fields [of s w]
  by (cases "validateWord s w";
      simp add: addWord_def fallbackAddWord_def split: bool.splits option.splits)+

lemma appendWord_extends:
  "\<exists>ws vs. currentVocab (appendWord s a) = currentVocab s @ ws
         \<and> currentEmbeddings (appendWord s a) = currentEmbeddings s @ vs"
proof (cases a)
  case (ViaModel w)
  then show ?thesis
    using validateWord_fields [of s w]
    by (cases "validateWord s w")
       (auto simp: addWord_def split: bool.splits option.splits)
next
  case (ViaFallback w)
  then show ?thesis
    using validateWord_fields [of s w]
    by (cases "validateWord s w")
       (auto simp: fallbackAddWord_def split: bool.splits)
qed

lemma appends_extend:
  "\<exists>ws vs. currentVocab (foldl appendWord s as) = currentVocab s @ ws
         \<and> currentEmbeddings (foldl appendWord s as) = currentEmbeddings s @ vs"
proof (induction as arbitrary: s)
  case Nil
  then show ?case by simp
next
  case (Cons a as)
  obtain ws vs where 1: "currentVocab (appendWord s a) = currentVocab s @ ws"
    "currentEmbeddings (appendWord s a) = currentEmbeddings s @ vs"
    using appendWord_extends by blast
  obtain ws' vs' where 2:
    "currentVocab (foldl appendWord (appendWord s a) as) = currentVocab (appendWord s a) @ ws'"
    "currentEmbeddings (foldl appendWord (appendWord s a) as)
       = currentEmbeddings (appendWord s a) @ vs'"
    using Cons.IH by blast
  show ?case using 1 2 by simp
qed

subsection \<open>The fallback embedding\<close>

lemma toLowerChar_lower: "isLowerLetter c \<Longrightarrow> toLowerChar c = c"
  by (simp add: isLowerLetter_def toLowerChar_def Let_def)

lemma toLowerCase_lower: "list_all isLowerLetter w \<Longrightarrow> toLowerCase w = w"
  by (induction w) (simp_all add: toLowerCase_def toLowerChar_lower)

lemma simpleEmbedding_nth:
  assumes "w \<noteq> []" and "i < 100"
  shows "simpleEmbedding w ! i =
     Num (sin (real_of_int (int (of_char (toLowerCase w ! (i mod length w))) - 96) * (real i / 100))
          * cos (real_of_int (int (of_char (toLowerCase w ! (i mod length w))) - 96)))"
proof -
  have "i mod length w < length w" using assms(1) by simp
  then show ?thesis
    using assms by (simp add: simpleEmbedding_def Let_def toLowerCase_def)
qed

subsection \<open>The effect that loads the encoder\<close>

lemma loadUSEModel_guard:
  "model s \<noteq> None \<or> isModelLoading s \<Longrightarrow> loadUSEModel s = (s, False)"
  by (auto simp: loadUSEModel_def)

lemma effectTwice_idle:
  "model s = None \<Longrightarrow> \<not> isModelLoading s \<Longrightarrow>
   effectTwice (s, n) = (s\<lparr>isModelLoading := True\<rparr>, Suc n)"
  by (simp add: effectTwice_def effectRun_def loadUSEModel_def depsChanged_def)

lemma effectTwice_busy:
  "model s \<noteq> None \<or> isModelLoading s \<Longrightarrow> effectTwice (s, n) = (s, n)"
  by (auto simp: effectTwice_def effectRun_def loadUSEModel_def depsChanged_def)

text \<open>While a load is in flight the effect starts no other, and after a success none.\<close>

lemma no_load_while_in_flight:
  "isModelLoading s \<Longrightarrow> snd (loadUSEModel s) = False \<and> effectTwice (s, n) = (s, n)"
  by (simp add: loadUSEModel_guard effectTwice_busy)

lemma no_load_after_success:
  "snd (step (s, n) (LoadResolved m)) = n"
  by (auto simp: afterRender_def effectTwice_busy)

lemma step_rejected_loading:
  "model s = None \<Longrightarrow> isModelLoading s \<Longrightarrow> step (s, n) LoadRejected = (s, Suc n)"
  by (simp add: afterRender_def depsChanged_def effectTwice_idle)

lemma run_rejections:
  "model s = None \<Longrightarrow> isModelLoading s \<Longrightarrow>
   run (s, n) (replicate j LoadRejected) = (s, n + j)"
proof (induction j arbitrary: n)
  case 0
  then show ?case by (simp add: run_def)
next
  case (Suc j)
  have "step (s, n) LoadRejected = (s, Suc n)"
    using Suc.prems by (rule step_rejected_loading)
  then have "run (s, n) (replicate (Suc j) LoadRejected)
               = run (s, Suc n) (replicate j LoadRejected)"
    by (simp add: run_def del: step.simps)
  then show ?case
    using Suc.IH [OF Suc.prems] by simp
qed

section \<open>Nearest neighbours\<close>

text \<open>
  C1.  The neighbours of a selected word must never contain the word's own index.
  \<^verbatim>\<open>findNearestNeighbors\<close> has no index to exclude; it drops the entry at position
  \<open>0\<close> of the sorted array ("Skip the word itself").  In \<open>caseScene\<close> the words
  \<open>cat\<close> and \<open>Cat\<close> have the same vector, so both distances to the vector of
  \<open>Cat\<close> are \<open>0\<close>, the stable sort keeps index \<open>0\<close> in front, and selecting
  \<open>Cat\<close> (index \<open>1\<close>) yields the neighbour list \<open>[1]\<close>: the word's own index.
\<close>

theorem select_returns_own_index:
  "indexOf (currentVocab caseScene) ''Cat'' = Some 1
   \<and> onSelect caseScene ''Cat''
       = Inr (caseScene\<lparr>highlightedWord := Some ''Cat'', nearestIndexes := [1]\<rparr>)"
  by (simp add: onSelect_def caseScene_def initialScene_def evalNearest)

text \<open>
  C2.  When fewer than \<open>k\<close> candidates are left after the exclusion of the active
  word's index, all of them must be returned.  \<^verbatim>\<open>findNearestNeighbors\<close> drops the
  entry at position \<open>0\<close> of the sorted array instead of the entry of the active word:
  in \<open>caseScene\<close>, for the vector at index \<open>1\<close> and \<open>k = 5\<close>, the only
  candidate left after excluding index \<open>1\<close> is index \<open>0\<close>, and the result is
  \<open>[1]\<close>.
\<close>

theorem nearest_omits_remaining_candidate:
  "filter (\<lambda>i. i \<noteq> 1) [0..<length (currentEmbeddings caseScene)] = [0]
   \<and> findNearestNeighbors (currentEmbeddings caseScene) (currentEmbeddings caseScene ! 1) 5 = [1]"
  by (simp add: caseScene_def initialScene_def evalNearest upt_rec)

section \<open>The store\<close>

text \<open>
  C3.  There is no check for duplicates: a valid word that is already in the store, in
  any letter case, is appended once more together with its vector, through the fallback
  as well as through the encoder when it yields a vector, and no error is reported.
\<close>

theorem duplicate_word_is_appended:
  assumes "fst (validateWord s w)"
    and "toLowerCase w \<in> set (map toLowerCase (currentVocab s))"
  shows "currentVocab (fallbackAddWord s w) = currentVocab s @ [w]
       \<and> currentEmbeddings (fallbackAddWord s w) = currentEmbeddings s @ [simpleEmbedding w]
       \<and> validationError (fallbackAddWord s w) = []
       \<and> (\<forall>m v. model s = Some m \<and> m (toLowerCase w) = Some v \<longrightarrow>
             currentVocab (addWord s w) = currentVocab s @ [w]
             \<and> currentEmbeddings (addWord s w) = currentEmbeddings s @ [v]
             \<and> validationError (addWord s w) = [])"
  using fallbackAddWord_valid [OF assms(1)] addWord_valid [OF assms(1)] by simp

theorem duplicate_word_is_appended_witness:
  "fst (validateWord caseScene ''CAT'')
   \<and> toLowerCase ''CAT'' \<in> set (map toLowerCase (currentVocab caseScene))
   \<and> currentVocab (fallbackAddWord caseScene ''CAT'') = [''cat'', ''Cat'', ''CAT'']
   \<and> length (currentEmbeddings (fallbackAddWord caseScene ''CAT'')) = 3
   \<and> validationError (fallbackAddWord caseScene ''CAT'') = []"
proof -
  have v: "fst (validateWord caseScene ''CAT'')"
    by (simp add: evalValidate)
  have p: "toLowerCase ''CAT'' \<in> set (map toLowerCase (currentVocab caseScene))"
    by (simp add: caseScene_def initialScene_def) code_simp
  have c: "currentVocab caseScene = [''cat'', ''Cat'']"
    "length (currentEmbeddings caseScene) = 2"
    by (simp_all add: caseScene_def initialScene_def)
  show ?thesis
    using duplicate_word_is_appended [OF v p] v p c by simp
qed

text \<open>
  The second append of \<open>cat\<close> to an empty store is not rejected: the store then holds
  the word twice.
\<close>

theorem second_append_succeeds:
  "currentVocab (fallbackAddWord (fallbackAddWord (initialScene [] []) ''cat'') ''cat'')
     = [''cat'', ''cat'']
   \<and> validationError (fallbackAddWord (fallbackAddWord (initialScene [] []) ''cat'') ''cat'') = []"
  by (simp add: fallbackAddWord_def evalValidate initialScene_def)

text \<open>
  C4.  There is no check of the dimensionality: into a non-empty store whose vectors
  all have length \<open>d\<close>, a valid word is appended with the fallback vector of length
  \<open>100\<close> also when \<open>d\<close> is not \<open>100\<close>, and with the encoder's vector also when its
  length is not \<open>d\<close>; no error is reported.
\<close>

theorem mismatched_vector_is_appended:
  assumes "fst (validateWord s w)"
    and "currentEmbeddings s \<noteq> []"
    and "\<forall>e\<in>set (currentEmbeddings s). length e = d"
  shows "(d \<noteq> 100 \<longrightarrow>
            currentEmbeddings (fallbackAddWord s w) = currentEmbeddings s @ [simpleEmbedding w]
            \<and> length (simpleEmbedding w) = 100
            \<and> validationError (fallbackAddWord s w) = [])
       \<and> (\<forall>m v. model s = Some m \<and> m (toLowerCase w) = Some v \<and> length v \<noteq> d \<longrightarrow>
             currentEmbeddings (addWord s w) = currentEmbeddings s @ [v]
             \<and> validationError (addWord s w) = [])"
  using fallbackAddWord_valid [OF assms(1)] addWord_valid [OF assms(1)]
  by (simp add: length_simpleEmbedding)

theorem mismatched_vector_is_appended_witness:
  "fst (validateWord selectedScene ''sun'')
   \<and> currentEmbeddings selectedScene \<noteq> []
   \<and> map length (currentEmbeddings selectedScene) = [2, 2]
   \<and> map length (currentEmbeddings (fallbackAddWord selectedScene ''sun'')) = [2, 2, 100]"
proof -
  have v: "fst (validateWord selectedScene ''sun'')"
    by (simp add: evalValidate)
  have e: "currentEmbeddings selectedScene = [[Num 1, Num 0], [Num 0, Num 1]]"
    by (simp add: selectedScene_def initialScene_def)
  have n: "currentEmbeddings selectedScene \<noteq> []" by (simp add: e)
  have d: "\<forall>e\<in>set (currentEmbeddings selectedScene). length e = 2" by (simp add: e)
  show ?thesis
    using mismatched_vector_is_appended [OF v n d] v e by simp
qed

text \<open>
  The fallback vector of length \<open>100\<close> is appended to a store of vectors of length
  \<open>2\<close>, and the store is not left unchanged.
\<close>

theorem fallback_vector_enters_plane_store:
  "map length (currentEmbeddings planeScene) = [2]
   \<and> map length (currentEmbeddings (fallbackAddWord planeScene ''dog'')) = [2, 100]
   \<and> validationError (fallbackAddWord planeScene ''dog'') = []"
  by (simp add: fallbackAddWord_def evalValidate planeScene_def initialScene_def
      length_simpleEmbedding)

section \<open>Selection after an addition\<close>

text \<open>
  C5.  After a word was added it should be the active word, with its own, freshly
  computed neighbours.  \<^verbatim>\<open>addWord\<close> makes the new word the highlighted one and
  leaves \<open>nearestIndexes\<close> as it was: in \<open>selectedScene\<close>, where \<open>cat\<close> is selected
  with the neighbour list \<open>[1]\<close>, adding \<open>sun\<close> highlights \<open>sun\<close> and keeps
  \<open>[1]\<close>, while the neighbours of the vector of \<open>sun\<close> in the new store are
  \<open>[1, 0]\<close>.
\<close>

theorem addWord_leaves_stale_neighbors:
  "highlightedWord (addWord selectedScene ''sun'') = Some ''sun''
   \<and> currentVocab (addWord selectedScene ''sun'') = [''cat'', ''dog'', ''sun'']
   \<and> nearestIndexes (addWord selectedScene ''sun'') = [1]
   \<and> findNearestNeighbors (currentEmbeddings (addWord selectedScene ''sun''))
        (currentEmbeddings (addWord selectedScene ''sun'') ! 2) 5 = [1, 0]"
  by (simp add: addWord_def evalValidate selectedScene_def initialScene_def evalNearest)

section \<open>The fallback embedding\<close>

text \<open>
  C6.  For every non-empty word of lower-case letters the fallback embedding has \<open>100\<close>
  components, and component \<open>i\<close> is \<open>sin (charValue * (i / 100)) * cos charValue\<close>
  with \<open>charValue = ord(word[i mod wordLength]) - ord('a') + 1\<close>.  The embedding is a
  function of the word alone, so two calls with the same word give the same vector.
\<close>

theorem fallback_embedding_formula:
  assumes "word \<noteq> []" and "list_all isLowerLetter word"
  shows "length (simpleEmbedding word) = 100
       \<and> (\<forall>i<100. simpleEmbedding word ! i = Num (spec_component word i))"
proof -
  have "simpleEmbedding word ! i = Num (spec_component word i)" if "i < 100" for i
    using simpleEmbedding_nth [OF assms(1) that] toLowerCase_lower [OF assms(2)]
    by (simp add: spec_component_def spec_charValue_def)
  then show ?thesis
    by (simp add: length_simpleEmbedding)
qed

theorem fallback_embedding_formula_witness:
  "''ab'' \<noteq> [] \<and> list_all isLowerLetter ''ab''
   \<and> length (simpleEmbedding ''ab'') = 100
   \<and> simpleEmbedding ''ab'' ! 1 = Num (sin (2 * (1 / 100)) * cos 2)
   \<and> simpleEmbedding ''ab'' ! 2 = Num (sin (1 * (2 / 100)) * cos 1)"
proof -
  have l: "list_all isLowerLetter ''ab''"
    by (simp add: isLowerLetter_def)
  have n: "''ab'' \<noteq> []" by simp
  have c1: "spec_component ''ab'' 1 = sin (2 * (1 / 100)) * cos 2"
    by (simp add: spec_component_def spec_charValue_def)
  have "(2::nat) mod length ''ab'' = 0" by (simp add: numeral_2_eq_2)
  then have c2: "spec_component ''ab'' 2 = sin (1 * (2 / 100)) * cos 1"
    by (simp add: spec_component_def spec_charValue_def)
  show ?thesis
    using fallback_embedding_formula [OF n l] l c1 c2 by simp
qed

section \<open>Vectors of norm zero in the ranking\<close>




section \<open>Selecting and deselecting\<close>

text \<open>
  C8.  Selecting the active word again clears the selection: no word is highlighted and
  the neighbour list is empty.  Selecting another word of the vocabulary makes it the
  highlighted word, with the five nearest neighbours computed for its vector.
\<close>

theorem onSelect_toggle:
  "(highlightedWord s = Some w \<longrightarrow>
       onSelect s w = Inr (s\<lparr>highlightedWord := None, nearestIndexes := []\<rparr>))
   \<and> (highlightedWord s \<noteq> Some w \<and> indexOf (currentVocab s) w = Some idx
        \<and> idx < length (currentEmbeddings s) \<longrightarrow>
       onSelect s w =
         Inr (s\<lparr>highlightedWord := Some w,
                nearestIndexes :=
                  findNearestNeighbors (currentEmbeddings s) (currentEmbeddings s ! idx) 5\<rparr>))"
  by (simp add: onSelect_def)

theorem onSelect_toggle_witness:
  "highlightedWord selectedScene = Some ''cat''
   \<and> onSelect selectedScene ''cat''
       = Inr (selectedScene\<lparr>highlightedWord := None, nearestIndexes := []\<rparr>)
   \<and> highlightedWord selectedScene \<noteq> Some ''dog''
   \<and> indexOf (currentVocab selectedScene) ''dog'' = Some 1
   \<and> 1 < length (currentEmbeddings selectedScene)
   \<and> onSelect selectedScene ''dog''
       = Inr (selectedScene\<lparr>highlightedWord := Some ''dog'', nearestIndexes := [0]\<rparr>)"
proof -
  have h: "highlightedWord selectedScene = Some ''cat''"
    and v: "currentVocab selectedScene = [''cat'', ''dog'']"
    and e: "currentEmbeddings selectedScene = [[Num 1, Num 0], [Num 0, Num 1]]"
    by (simp_all add: selectedScene_def initialScene_def)
  have i: "indexOf (currentVocab selectedScene) ''dog'' = Some 1"
    by (simp add: v)
  have n: "findNearestNeighbors (currentEmbeddings selectedScene)
             (currentEmbeddings selectedScene ! 1) 5 = [0]"
    by (simp add: e evalNearest)
  show ?thesis
    using onSelect_toggle [of selectedScene "''cat''"]
      onSelect_toggle [of selectedScene "''dog''" 1] h i n e
    by simp
qed

section \<open>Loading the encoder once\<close>

text \<open>
  C9.  The encoder should be loaded at most once, without a retry after a failure.  The
  effect is guarded by \<open>model\<close> and \<open>isModelLoading\<close> only, and a failed load clears
  \<open>isModelLoading\<close>, which is a dependency of the effect: the effect runs again and
  calls \<open>use.load()\<close> again.  After the first render followed by \<open>j\<close> failed loads,
  \<open>use.load()\<close> has been called \<open>j + 1\<close> times.
\<close>

theorem rejected_load_is_retried:
  "snd (run (initialScene vocab embeddings, 0) (Mount # replicate j LoadRejected)) = Suc j"
proof -
  let ?s = "(initialScene vocab embeddings)\<lparr>isModelLoading := True\<rparr>"
  have "run (initialScene vocab embeddings, 0) (Mount # replicate j LoadRejected)
          = run (?s, Suc 0) (replicate j LoadRejected)"
    by (simp add: run_def effectTwice_idle initialScene_def)
  also have "\<dots> = (?s, Suc 0 + j)"
    by (rule run_rejections) (simp_all add: initialScene_def)
  finally show ?thesis by simp
qed

section \<open>Appending keeps the stored entries\<close>

text \<open>
  C10.  Whatever sequence of additions is made, through the encoder or the fallback,
  accepted or not, the words and the vectors that were in the store before are still
  there afterwards, at the same indices and in the same order: the old store is the
  initial segment of the new one.
\<close>

theorem appends_keep_entries:
  "take (length (currentVocab s)) (currentVocab (foldl appendWord s as)) = currentVocab s
   \<and> take (length (currentEmbeddings s)) (currentEmbeddings (foldl appendWord s as))
       = currentEmbeddings s"
proof -
  obtain ws vs where "currentVocab (foldl appendWord s as) = currentVocab s @ ws"
    "currentEmbeddings (foldl appendWord s as) = currentEmbeddings s @ vs"
    using appends_extend by blast
  then show ?thesis by simp
qed

end
